theory Spec2Isabelle
  imports Complex_Main
begin

section \<open>Values of the Python runtime\<close>

text \<open>
  The exceptions the detector can surface. Each raise of the source, and of the library
  routines it calls, is a value of this type.
\<close>

datatype error =
    ValueError
  | StatisticsError
  | ZeroDivisionError
  | KeyError
  | IndexError
  | TypeError
  | AttributeError

text \<open>
  A float is a real number or one of the three special values that numpy produces
  silently: the two infinities and NaN. Finite arithmetic is exact (no rounding, no
  overflow); the special values follow IEEE 754, without a signed zero.
\<close>

datatype fval = Fin real | PInf | NInf | NaN

fun fneg :: "fval \<Rightarrow> fval" where
  "fneg (Fin a) = Fin (- a)"
| "fneg PInf = NInf"
| "fneg NInf = PInf"
| "fneg NaN = NaN"

fun fadd :: "fval \<Rightarrow> fval \<Rightarrow> fval" where
  "fadd (Fin a) (Fin b) = Fin (a + b)"
| "fadd NaN _ = NaN"
| "fadd _ NaN = NaN"
| "fadd PInf NInf = NaN"
| "fadd NInf PInf = NaN"
| "fadd PInf _ = PInf"
| "fadd _ PInf = PInf"
| "fadd NInf _ = NInf"
| "fadd _ NInf = NInf"

definition fsub :: "fval \<Rightarrow> fval \<Rightarrow> fval" where
  "fsub a b = fadd a (fneg b)"

fun fpos :: "fval \<Rightarrow> bool" where
  "fpos (Fin a) = (0 < a)"
| "fpos PInf = True"
| "fpos NInf = False"
| "fpos NaN = False"

fun fnonneg :: "fval \<Rightarrow> bool" where
  "fnonneg (Fin a) = (0 \<le> a)"
| "fnonneg PInf = True"
| "fnonneg NInf = False"
| "fnonneg NaN = False"

fun fmul :: "fval \<Rightarrow> fval \<Rightarrow> fval" where
  "fmul (Fin a) (Fin b) = Fin (a * b)"
| "fmul NaN _ = NaN"
| "fmul _ NaN = NaN"
| "fmul x y =
     (if x = Fin 0 \<or> y = Fin 0 then NaN
      else if fpos x = fpos y then PInf else NInf)"

fun fdiv :: "fval \<Rightarrow> fval \<Rightarrow> fval" where
  "fdiv (Fin a) (Fin b) =
     (if b = 0 then (if a = 0 then NaN else if 0 < a then PInf else NInf)
      else Fin (a / b))"
| "fdiv NaN _ = NaN"
| "fdiv _ NaN = NaN"
| "fdiv (Fin a) _ = Fin 0"
| "fdiv x (Fin b) = (if 0 \<le> b then x else fneg x)"
| "fdiv _ _ = NaN"

text \<open>\<^verbatim>\<open>np.log\<close>, \<^verbatim>\<open>np.exp\<close>, \<^verbatim>\<open>np.abs\<close>: the logarithm of zero is minus infinity, of a
  negative number NaN; neither raises.\<close>

fun flog :: "fval \<Rightarrow> fval" where
  "flog (Fin a) = (if 0 < a then Fin (ln a) else if a = 0 then NInf else NaN)"
| "flog PInf = PInf"
| "flog NInf = NaN"
| "flog NaN = NaN"

fun fexp :: "fval \<Rightarrow> fval" where
  "fexp (Fin a) = Fin (exp a)"
| "fexp PInf = PInf"
| "fexp NInf = Fin 0"
| "fexp NaN = NaN"

fun fabs :: "fval \<Rightarrow> fval" where
  "fabs (Fin a) = Fin \<bar>a\<bar>"
| "fabs PInf = PInf"
| "fabs NInf = PInf"
| "fabs NaN = NaN"

text \<open>Comparison: every comparison with NaN is false.\<close>

fun flt :: "fval \<Rightarrow> fval \<Rightarrow> bool" where
  "flt (Fin a) (Fin b) = (a < b)"
| "flt NaN _ = False"
| "flt _ NaN = False"
| "flt _ NInf = False"
| "flt PInf _ = False"
| "flt NInf _ = True"
| "flt _ PInf = True"

text \<open>\<^verbatim>\<open>np.sum\<close> of a one-dimensional array (the empty sum is 0.0).\<close>

primrec fsum :: "fval list \<Rightarrow> fval" where
  "fsum [] = Fin 0"
| "fsum (x # xs) = fadd x (fsum xs)"

text \<open>\<^verbatim>\<open>np.minimum\<close> on two scalars: NaN if either is NaN.\<close>

definition fminimum :: "fval \<Rightarrow> fval \<Rightarrow> fval" where
  "fminimum a b = (if a = NaN \<or> b = NaN then NaN else if flt b a then b else a)"

text \<open>
  Python's built-in \<^verbatim>\<open>max(a, b)\<close> and \<^verbatim>\<open>max(list)\<close>: the first argument stays unless a
  later one compares greater; the empty list raises ValueError.
\<close>

definition py_max2 :: "fval \<Rightarrow> fval \<Rightarrow> fval" where
  "py_max2 a b = (if flt a b then b else a)"

definition py_max :: "fval list \<Rightarrow> error + fval" where
  "py_max xs = (case xs of [] \<Rightarrow> Inl ValueError | x # rest \<Rightarrow> Inr (foldl py_max2 x rest))"

text \<open>Python's built-in \<^verbatim>\<open>min\<close> and \<^verbatim>\<open>max\<close> over a sequence of finite numbers.\<close>

definition py_min_real :: "real list \<Rightarrow> error + real" where
  "py_min_real xs =
     (case xs of [] \<Rightarrow> Inl ValueError
      | x # rest \<Rightarrow> Inr (foldl (\<lambda>m y. if y < m then y else m) x rest))"

definition py_max_real :: "real list \<Rightarrow> error + real" where
  "py_max_real xs =
     (case xs of [] \<Rightarrow> Inl ValueError
      | x # rest \<Rightarrow> Inr (foldl (\<lambda>m y. if m < y then y else m) x rest))"

text \<open>Python 3's \<^verbatim>\<open>round(x)\<close> with one argument: to the nearest integer, ties to the
  even one.\<close>

definition py_round :: "real \<Rightarrow> int" where
  "py_round x =
     (let f = \<lfloor>x\<rfloor>; d = x - of_int f
      in if d < 1 / 2 then f else if 1 / 2 < d then f + 1
         else if even f then f else f + 1)"

section \<open>The detector's data\<close>

text \<open>
  A window is a pandas DataFrame: a list of rows, each a list of cells; columns are
  identified by position. Appending rows to a frame aligns the columns: the result
  has the columns of both, and a row that lacks a column holds NaN there.
\<close>

type_synonym frame = "fval list list"

definition df_width :: "frame \<Rightarrow> nat" where
  "df_width df = foldr (\<lambda>r k. max (length r) k) df 0"

definition df_pad :: "nat \<Rightarrow> fval list \<Rightarrow> fval list" where
  "df_pad k r = r @ replicate (k - length r) NaN"

definition df_append :: "frame \<Rightarrow> frame \<Rightarrow> frame" where
  "df_append df rows = map (df_pad (max (df_width df) (df_width rows))) (df @ rows)"

text \<open>An observation is a one-row frame: the row's index label and its cells.\<close>

record observation =
  obs_index :: int
  obs_values :: "fval list"

text \<open>The drift state of a detector: \<^verbatim>\<open>"drift"\<close>, \<^verbatim>\<open>"warning"\<close> or \<^verbatim>\<open>None\<close>.\<close>

datatype drift = Drift | Warning

text \<open>
  A fitted kernel density estimator (scikit-learn's \<^verbatim>\<open>KernelDensity\<close> with the
  Epanechnikov kernel): the sample it was fitted on and its bandwidth.
\<close>

record kde =
  kde_sample :: "real list"
  kde_bandwidth :: real

text \<open>
  The dictionaries the density builders return: \<^verbatim>\<open>{"density", "object"}\<close> from
  \<^verbatim>\<open>_build_kde\<close> and \<^verbatim>\<open>{"bin_edges", "density"}\<close> from \<^verbatim>\<open>_build_histograms\<close>.
  Reading a key the dictionary lacks raises KeyError.
\<close>

datatype density_est =
    KDE_est "fval list" kde
  | Hist_est "real list" "fval list"

fun get_density :: "density_est \<Rightarrow> fval list" where
  "get_density (KDE_est d k) = d"
| "get_density (Hist_est e d) = d"

fun get_object :: "density_est \<Rightarrow> error + kde" where
  "get_object (KDE_est d k) = Inr k"
| "get_object (Hist_est e d) = Inl KeyError"

text \<open>
  The library objects the detector owns but does not implement are parameters of the
  model: scikit-learn's PCA and StandardScaler, and the Page-Hinkley test. A routine
  that can raise returns a sum. \<open>'p\<close> is a PCA object (fitted or not), \<open>'s\<close> a scaler,
  \<open>'h\<close> the state of the sequential test.

  So is the multiplication of two doubles, \<open>float_mul\<close>: the double nearest to the
  exact product of the doubles its arguments denote. The constructor rounds two such
  products to integers, and a product within the rounding error of a half-integer
  rounds differently from the exact one (\<^verbatim>\<open>round(0.07 * 150)\<close> is 11, the exact product
  10.5 would give 10).
\<close>

record ('p, 's, 'h) backend =
  pca_new :: "real \<Rightarrow> 'p"
  pca_fit :: "'p \<Rightarrow> frame \<Rightarrow> error + 'p"
  pca_components :: "'p \<Rightarrow> real list list"
  pca_transform :: "'p \<Rightarrow> frame \<Rightarrow> error + real list list"
  scaler_new :: "'s"
  scaler_fit_transform :: "'s \<Rightarrow> frame \<Rightarrow> error + ('s \<times> frame)"
  scaler_transform :: "'s \<Rightarrow> frame \<Rightarrow> error + frame"
  scaler_inverse_transform :: "'s \<Rightarrow> frame \<Rightarrow> error + frame"
  ph_new :: "real \<Rightarrow> int \<Rightarrow> nat \<Rightarrow> 'h"
  ph_update :: "'h \<Rightarrow> fval \<Rightarrow> int \<Rightarrow> 'h"
  ph_reset :: "'h \<Rightarrow> 'h"
  ph_drift_state :: "'h \<Rightarrow> drift option"
  float_mul :: "real \<Rightarrow> real \<Rightarrow> real"

text \<open>
  The attributes of a \<^verbatim>\<open>PCACD\<close> object, in the order \<^verbatim>\<open>__init__\<close> sets them; the
  first three are the base class's. The leading underscore of the private attributes
  is dropped. \<open>drift_tracker\<close> and \<open>reference_scaler\<close> exist only when the
  corresponding option is on; a snapshot of the sequential test is its state.
\<close>

record ('p, 's, 'h) pcacd =
  total_samples :: nat
  samples_since_reset :: nat
  drift_state :: "drift option"
  window_size :: int
  ev_threshold :: real
  divergence_metric :: string
  track_state :: bool
  sample_period :: real
  step :: int
  ph_threshold :: int
  bins :: int
  delta :: real
  drift_detection_monitor :: 'h
  drift_tracker :: "'h list option"
  num_pcs :: "nat option"
  online_scaling :: bool
  reference_scaler :: "'s option"
  build_reference_and_test :: bool
  reference_window :: frame
  test_window :: frame
  pca :: "'p option"
  reference_pca_projection :: "real list list"
  test_pca_projection :: "real list list"
  density_reference :: "string \<rightharpoonup> density_est"
  density_test :: "string \<rightharpoonup> density_est"
  change_score :: "fval list"

section \<open>Construction\<close>

text \<open>
  \<^verbatim>\<open>int(np.floor(np.sqrt(window_size)))\<close>: the square root of a negative number is NaN
  (a warning, no exception), and converting NaN to an integer raises ValueError.
\<close>

definition floor_sqrt :: "int \<Rightarrow> error + int" where
  "floor_sqrt w = (if w < 0 then Inl ValueError else Inr \<lfloor>sqrt (of_int w)\<rfloor>)"

text \<open>
  \<^verbatim>\<open>PCACD.__init__\<close>. The arguments are stored as given; nothing is compared with the
  set of known metrics or with an interval.
\<close>

definition PCACD_init ::
  "('p, 's, 'h) backend \<Rightarrow> int \<Rightarrow> real \<Rightarrow> real \<Rightarrow> string \<Rightarrow> real \<Rightarrow> bool \<Rightarrow> bool
     \<Rightarrow> error + ('p, 's, 'h) pcacd" where
  "PCACD_init B w ev dl metric period scaling track =
     (case floor_sqrt w of
        Inl e \<Rightarrow> Inl e
      | Inr b \<Rightarrow>
          Inr \<lparr> total_samples = 0,
                samples_since_reset = 0,
                drift_state = None,
                window_size = w,
                ev_threshold = ev,
                divergence_metric = metric,
                track_state = track,
                sample_period = period,
                step = min 100 (py_round (float_mul B period (of_int w))),
                ph_threshold = py_round (float_mul B (1 / 100) (of_int w)),
                bins = b,
                delta = dl,
                drift_detection_monitor =
                  ph_new B dl (py_round (float_mul B (1 / 100) (of_int w))) 0,
                drift_tracker = (if track then Some [] else None),
                num_pcs = None,
                online_scaling = scaling,
                reference_scaler = (if scaling then Some (scaler_new B) else None),
                build_reference_and_test = True,
                reference_window = [],
                test_window = [],
                pca = None,
                reference_pca_projection = [],
                test_pca_projection = [],
                density_reference = Map.empty,
                density_test = Map.empty,
                change_score = [Fin 0] \<rparr>)"

text \<open>The set of metrics the detector implements, and a valid configuration as the
  specification describes it.\<close>

definition known_metric :: "string \<Rightarrow> bool" where
  "known_metric m = (m = ''kl'' \<or> m = ''llh'' \<or> m = ''intersection'')"

definition valid_config :: "int \<Rightarrow> real \<Rightarrow> string \<Rightarrow> bool" where
  "valid_config w ev metric = (known_metric metric \<and> 0 < w \<and> 0 < ev \<and> ev \<le> 1)"

section \<open>Density estimation\<close>

text \<open>\<^verbatim>\<open>PCACD._epanechnikov_kernel\<close>.\<close>

definition epanechnikov_kernel :: "real \<Rightarrow> real" where
  "epanechnikov_kernel x_j = (if \<bar>x_j\<bar> \<le> 1 then (3 / 4) * (1 - x_j\<^sup>2) else 0)"

text \<open>
  \<^verbatim>\<open>statistics.stdev\<close>: the sample standard deviation; fewer than two data points raise
  StatisticsError.
\<close>

definition py_mean :: "real list \<Rightarrow> real" where
  "py_mean xs = sum_list xs / real (length xs)"

definition stdev :: "real list \<Rightarrow> error + real" where
  "stdev xs =
     (if length xs < 2 then Inl StatisticsError
      else Inr (sqrt (sum_list (map (\<lambda>x. (x - py_mean xs)\<^sup>2) xs) / real (length xs - 1))))"

text \<open>
  \<^verbatim>\<open>KernelDensity(bandwidth=h, kernel="epanechnikov").fit(sample)\<close>. scikit-learn rejects
  a bandwidth that is not positive, and an empty sample, with ValueError.
\<close>

definition KernelDensity_fit :: "real \<Rightarrow> real list \<Rightarrow> error + kde" where
  "KernelDensity_fit h sample =
     (if h \<le> 0 then Inl ValueError
      else if sample = [] then Inl ValueError
      else Inr \<lparr> kde_sample = sample, kde_bandwidth = h \<rparr>)"

text \<open>
  The density the estimator assigns to a point, as the source's commented reference
  computation gives it:
  \<^verbatim>\<open>(1 / (sample_length * bandwidth)) * sum(K((x - x_j) / bandwidth) for x_j in values)\<close>.
\<close>

definition kde_pdf :: "kde \<Rightarrow> real \<Rightarrow> real" where
  "kde_pdf k x =
     (1 / (real (length (kde_sample k)) * kde_bandwidth k))
       * sum_list (map (\<lambda>x_j. epanechnikov_kernel ((x - x_j) / kde_bandwidth k)) (kde_sample k))"

text \<open>\<^verbatim>\<open>kde_object.score_samples(points)\<close>: the log-density at each point (minus infinity
  where the density is zero); an empty array of points raises ValueError.\<close>

definition score_samples :: "kde \<Rightarrow> real list \<Rightarrow> error + fval list" where
  "score_samples k xs =
     (if xs = [] then Inl ValueError else Inr (map (\<lambda>x. flog (Fin (kde_pdf k x))) xs))"

text \<open>\<^verbatim>\<open>PCACD._build_kde\<close>.\<close>

definition build_kde :: "real list \<Rightarrow> error + density_est" where
  "build_kde sample =
     (let sample_length = length sample in
      case stdev sample of
        Inl e \<Rightarrow> Inl e
      | Inr sd \<Rightarrow>
          (let bandwidth = 1.06 * sd * (real sample_length powr (- 1 / 5)) in
           case KernelDensity_fit bandwidth sample of
             Inl e \<Rightarrow> Inl e
           | Inr kde_object \<Rightarrow>
               (case score_samples kde_object sample of
                  Inl e \<Rightarrow> Inl e
                | Inr scores \<Rightarrow> Inr (KDE_est (map fexp scores) kde_object))))"

text \<open>
  \<^verbatim>\<open>np.histogram(sample, bins=bins, range=(lower, upper), density=True)\<close> for an integer
  number of bins: the bins are equal-width and half-open, the last one closed; values
  outside the range are dropped; an empty range is widened by one half on each side.
  The densities are \<^verbatim>\<open>n / db / n.sum()\<close>.
\<close>

definition linspace :: "real \<Rightarrow> real \<Rightarrow> nat \<Rightarrow> real list" where
  "linspace a b n = map (\<lambda>i. a + (b - a) * real i / real n) [0..<Suc n]"

definition bin_index :: "real \<Rightarrow> real \<Rightarrow> nat \<Rightarrow> real \<Rightarrow> nat" where
  "bin_index lo hi n x =
     (let i = nat \<lfloor>(x - lo) * real n / (hi - lo)\<rfloor> in if i = n then n - 1 else i)"

definition bin_counts :: "real \<Rightarrow> real \<Rightarrow> nat \<Rightarrow> real list \<Rightarrow> nat list" where
  "bin_counts lo hi n sample =
     map (\<lambda>i. length (filter (\<lambda>x. lo \<le> x \<and> x \<le> hi \<and> bin_index lo hi n x = i) sample)) [0..<n]"

definition np_histogram ::
  "real list \<Rightarrow> int \<Rightarrow> real \<times> real \<Rightarrow> error + (fval list \<times> real list)" where
  "np_histogram sample nbins bin_range =
     (if nbins < 1 then Inl ValueError
      else if fst bin_range > snd bin_range then Inl ValueError
      else
        (let n = nat nbins;
             lo = (if fst bin_range = snd bin_range then fst bin_range - 1 / 2 else fst bin_range);
             hi = (if fst bin_range = snd bin_range then snd bin_range + 1 / 2 else snd bin_range);
             bin_edges = linspace lo hi n;
             counts = bin_counts lo hi n sample;
             total = sum_list counts
         in Inr (map (\<lambda>i. fdiv (fdiv (Fin (real (counts ! i)))
                                 (Fin (bin_edges ! Suc i - bin_edges ! i)))
                           (Fin (real total))) [0..<n],
                 bin_edges)))"

text \<open>\<^verbatim>\<open>PCACD._build_histograms\<close>: the densities divided by their sum.\<close>

definition build_histograms :: "real list \<Rightarrow> int \<Rightarrow> real \<times> real \<Rightarrow> error + density_est" where
  "build_histograms sample nbins bin_range =
     (case np_histogram sample nbins bin_range of
        Inl e \<Rightarrow> Inl e
      | Inr density \<Rightarrow>
          Inr (Hist_est (snd density) (map (\<lambda>d. fdiv d (fsum (fst density))) (fst density))))"

section \<open>Divergences\<close>

text \<open>
  \<^verbatim>\<open>scipy.special.rel_entr\<close> and \<^verbatim>\<open>scipy.stats.entropy(pk, qk)\<close>: both arguments are
  normalised to sum 1 before the relative entropy is summed.
\<close>

definition rel_entr :: "fval \<Rightarrow> fval \<Rightarrow> fval" where
  "rel_entr x y =
     (if x = NaN \<or> y = NaN then NaN
      else if fpos x \<and> fpos y then fmul x (flog (fdiv x y))
      else if x = Fin 0 \<and> fnonneg y then Fin 0
      else PInf)"

definition entropy :: "fval list \<Rightarrow> fval list \<Rightarrow> error + fval" where
  "entropy pk qk =
     (let pk1 = map (\<lambda>p. fdiv (fmul (Fin 1) p) (fsum pk)) pk in
      if length qk \<noteq> length pk then Inl ValueError
      else
        (let qk1 = map (\<lambda>q. fdiv (fmul (Fin 1) q) (fsum qk)) qk
         in Inr (fsum (map (\<lambda>(p, q). rel_entr p q) (zip pk1 qk1)))))"

text \<open>\<^verbatim>\<open>PCACD._modified_kl_divergence\<close>.\<close>

definition modified_kl_divergence ::
  "real list \<Rightarrow> real list \<Rightarrow> density_est \<Rightarrow> density_est \<Rightarrow> error + fval" where
  "modified_kl_divergence ref_projection test_projection density_ref density_tst =
     (let projection = ref_projection @ test_projection in
      case get_object density_ref of Inl e \<Rightarrow> Inl e | Inr ref_estimator \<Rightarrow>
      case get_object density_tst of Inl e \<Rightarrow> Inl e | Inr test_estimator \<Rightarrow>
      case score_samples ref_estimator projection of Inl e \<Rightarrow> Inl e | Inr ref_scores \<Rightarrow>
      case score_samples test_estimator projection of Inl e \<Rightarrow> Inl e | Inr test_scores \<Rightarrow>
        (let ref_estimates = map fexp ref_scores;
             test_estimates = map fexp test_scores
         in case entropy ref_estimates test_estimates of Inl e \<Rightarrow> Inl e | Inr kl1 \<Rightarrow>
            case entropy test_estimates ref_estimates of Inl e \<Rightarrow> Inl e | Inr kl2 \<Rightarrow>
              Inr (py_max2 kl1 kl2)))"

text \<open>
  \<^verbatim>\<open>np.minimum\<close> on two arrays: elementwise, a one-element array is broadcast, and
  arrays of other differing lengths raise ValueError.
\<close>

definition np_minimum :: "fval list \<Rightarrow> fval list \<Rightarrow> error + fval list" where
  "np_minimum a b =
     (if length a = length b then Inr (map (\<lambda>(x, y). fminimum x y) (zip a b))
      else if length a = 1 then Inr (map (\<lambda>y. fminimum (hd a) y) b)
      else if length b = 1 then Inr (map (\<lambda>x. fminimum x (hd b)) a)
      else Inl ValueError)"

text \<open>\<^verbatim>\<open>PCACD._intersection_divergence\<close>.\<close>

definition intersection_divergence :: "density_est \<Rightarrow> density_est \<Rightarrow> error + fval" where
  "intersection_divergence density_ref density_tst =
     (case np_minimum (get_density density_ref) (get_density density_tst) of
        Inl e \<Rightarrow> Inl e
      | Inr m \<Rightarrow> (let intersection = fsum m in Inr (fsub (Fin 1) intersection)))"

text \<open>
  \<^verbatim>\<open>PCACD._llh_divergence\<close>. The total of the test scores is divided by the number of
  reference density values, and the total of the reference log-densities by the number
  of test points, as the source has it. Dividing a float by the integer 0 gives an
  infinity or NaN.
\<close>

definition llh_divergence :: "density_est \<Rightarrow> real list \<Rightarrow> error + fval" where
  "llh_divergence density_ref test_projection =
     (let ref_density_estimates = get_density density_ref in
      case get_object density_ref of Inl e \<Rightarrow> Inl e | Inr ref_estimator \<Rightarrow>
      case score_samples ref_estimator test_projection of Inl e \<Rightarrow> Inl e
      | Inr test_density_estimates \<Rightarrow>
        (let total_llh_ref = fsum (map flog ref_density_estimates);
             total_llh_test = fsum test_density_estimates
         in Inr (fabs (fsub
                  (fdiv total_llh_test (Fin (real (length ref_density_estimates))))
                  (fdiv total_llh_ref (Fin (real (length test_projection))))))))"

text \<open>
  The log-likelihood divergence as the specification words it: each total is divided
  by the length of its own sample.
\<close>

definition llh_divergence_spec :: "density_est \<Rightarrow> real list \<Rightarrow> error + fval" where
  "llh_divergence_spec density_ref test_projection =
     (let ref_density_estimates = get_density density_ref in
      case get_object density_ref of Inl e \<Rightarrow> Inl e | Inr ref_estimator \<Rightarrow>
      case score_samples ref_estimator test_projection of Inl e \<Rightarrow> Inl e
      | Inr test_density_estimates \<Rightarrow>
        (let total_llh_ref = fsum (map flog ref_density_estimates);
             total_llh_test = fsum test_density_estimates
         in Inr (fabs (fsub
                  (fdiv total_llh_ref (Fin (real (length ref_density_estimates))))
                  (fdiv total_llh_test (Fin (real (length test_projection))))))))"

section \<open>The update step\<close>

text \<open>
  Modelled from the spec: the base class \<^verbatim>\<open>DriftDetector\<close> is not among the sources.
  Its \<^verbatim>\<open>update\<close> advances the two sample counters, and its \<^verbatim>\<open>reset\<close> clears
  \<^verbatim>\<open>samples_since_reset\<close> and the drift state; \<^verbatim>\<open>total_samples\<close> counts the samples
  the detector has ever been updated with.
\<close>

definition base_update :: "('p, 's, 'h) pcacd \<Rightarrow> ('p, 's, 'h) pcacd" where
  "base_update s =
     s\<lparr> total_samples := total_samples s + 1,
        samples_since_reset := samples_since_reset s + 1 \<rparr>"

definition base_reset :: "('p, 's, 'h) pcacd \<Rightarrow> ('p, 's, 'h) pcacd" where
  "base_reset s = s\<lparr> samples_since_reset := 0, drift_state := None \<rparr>"

text \<open>
  A call that mutates the detector returns the exception it raised, if any, together
  with the state the object is left in: the assignments made before the raise stay.
\<close>

definition then_do ::
  "error option \<times> 'a \<Rightarrow> ('a \<Rightarrow> error option \<times> 'a) \<Rightarrow> error option \<times> 'a" where
  "then_do r f = (case r of (None, s) \<Rightarrow> f s | (Some e, s) \<Rightarrow> (Some e, s))"

fun map_err :: "('a \<Rightarrow> error + 'b) \<Rightarrow> 'a list \<Rightarrow> error + 'b list" where
  "map_err f [] = Inr []"
| "map_err f (x # xs) =
     (case f x of
        Inl e \<Rightarrow> Inl e
      | Inr y \<Rightarrow> (case map_err f xs of Inl e \<Rightarrow> Inl e | Inr ys \<Rightarrow> Inr (y # ys)))"

text \<open>The dictionary keys \<^verbatim>\<open>f"PC{i + 1}"\<close>.\<close>

fun string_of_nat :: "nat \<Rightarrow> string" where
  "string_of_nat n =
     (if n < 10 then [char_of (48 + n)]
      else string_of_nat (n div 10) @ [char_of (48 + n mod 10)])"

definition pc_key :: "nat \<Rightarrow> string" where
  "pc_key i = ''PC'' @ string_of_nat (i + 1)"

definition dict_get :: "(string \<rightharpoonup> 'v) \<Rightarrow> string \<Rightarrow> error + 'v" where
  "dict_get m k = (case m k of None \<Rightarrow> Inl KeyError | Some v \<Rightarrow> Inr v)"

text \<open>\<^verbatim>\<open>projection.iloc[:, i]\<close>: column \<open>i\<close>, IndexError when the frame has no such
  column.\<close>

definition iloc_col :: "real list list \<Rightarrow> nat \<Rightarrow> error + real list" where
  "iloc_col df i =
     (if list_all (\<lambda>r. i < length r) df then Inr (map (\<lambda>r. r ! i) df) else Inl IndexError)"

text \<open>The body of the loop that computes the reference distribution of component
  \<open>i\<close> (the histogram range spans both projections).\<close>

definition reference_density :: "('p, 's, 'h) pcacd \<Rightarrow> nat \<Rightarrow> error + density_est" where
  "reference_density s i =
     (if divergence_metric s = ''intersection'' then
        (case iloc_col (reference_pca_projection s) i of Inl e \<Rightarrow> Inl e | Inr rc \<Rightarrow>
         case iloc_col (test_pca_projection s) i of Inl e \<Rightarrow> Inl e | Inr tc \<Rightarrow>
         case py_min_real (rc @ tc) of Inl e \<Rightarrow> Inl e | Inr lower \<Rightarrow>
         case py_max_real (rc @ tc) of Inl e \<Rightarrow> Inl e | Inr upper \<Rightarrow>
           build_histograms rc (bins s) (lower, upper))
      else
        (case iloc_col (reference_pca_projection s) i of Inl e \<Rightarrow> Inl e | Inr rc \<Rightarrow>
           build_kde rc))"

fun build_reference ::
  "('p, 's, 'h) pcacd \<Rightarrow> nat list \<Rightarrow> error option \<times> ('p, 's, 'h) pcacd" where
  "build_reference s [] = (None, s)"
| "build_reference s (i # rest) =
     (case reference_density s i of
        Inl e \<Rightarrow> (Some e, s)
      | Inr d \<Rightarrow>
          build_reference (s\<lparr> density_reference := (density_reference s)(pc_key i \<mapsto> d) \<rparr>) rest)"

text \<open>The body of the loop that computes the test distribution of component \<open>i\<close>;
  the log-likelihood metric needs none.\<close>

definition test_density :: "('p, 's, 'h) pcacd \<Rightarrow> nat \<Rightarrow> error + density_est option" where
  "test_density s i =
     (if divergence_metric s = ''intersection'' then
        (case iloc_col (reference_pca_projection s) i of Inl e \<Rightarrow> Inl e | Inr rc \<Rightarrow>
         case iloc_col (test_pca_projection s) i of Inl e \<Rightarrow> Inl e | Inr tc \<Rightarrow>
         case py_min_real (rc @ tc) of Inl e \<Rightarrow> Inl e | Inr lower \<Rightarrow>
         case py_max_real (rc @ tc) of Inl e \<Rightarrow> Inl e | Inr upper \<Rightarrow>
         case build_histograms tc (bins s) (lower, upper) of
           Inl e \<Rightarrow> Inl e | Inr d \<Rightarrow> Inr (Some d))
      else if divergence_metric s = ''kl'' then
        (case iloc_col (test_pca_projection s) i of Inl e \<Rightarrow> Inl e | Inr tc \<Rightarrow>
         case build_kde tc of Inl e \<Rightarrow> Inl e | Inr d \<Rightarrow> Inr (Some d))
      else Inr None)"

fun build_test ::
  "('p, 's, 'h) pcacd \<Rightarrow> nat list \<Rightarrow> error option \<times> ('p, 's, 'h) pcacd" where
  "build_test s [] = (None, s)"
| "build_test s (i # rest) =
     (case test_density s i of
        Inl e \<Rightarrow> (Some e, s)
      | Inr None \<Rightarrow> build_test s rest
      | Inr (Some d) \<Rightarrow>
          build_test (s\<lparr> density_test := (density_test s)(pc_key i \<mapsto> d) \<rparr>) rest)"

text \<open>The change score of component \<open>i\<close> under each metric.\<close>

definition kl_score :: "('p, 's, 'h) pcacd \<Rightarrow> nat \<Rightarrow> error + fval" where
  "kl_score s i =
     (case iloc_col (reference_pca_projection s) i of Inl e \<Rightarrow> Inl e | Inr rc \<Rightarrow>
      case iloc_col (test_pca_projection s) i of Inl e \<Rightarrow> Inl e | Inr tc \<Rightarrow>
      case dict_get (density_reference s) (pc_key i) of Inl e \<Rightarrow> Inl e | Inr dr \<Rightarrow>
      case dict_get (density_test s) (pc_key i) of Inl e \<Rightarrow> Inl e | Inr dt \<Rightarrow>
        modified_kl_divergence rc tc dr dt)"

definition llh_score :: "('p, 's, 'h) pcacd \<Rightarrow> nat \<Rightarrow> error + fval" where
  "llh_score s i =
     (case dict_get (density_reference s) (pc_key i) of Inl e \<Rightarrow> Inl e | Inr dr \<Rightarrow>
      case iloc_col (test_pca_projection s) i of Inl e \<Rightarrow> Inl e | Inr tc \<Rightarrow>
        llh_divergence dr tc)"

definition intersection_score :: "('p, 's, 'h) pcacd \<Rightarrow> nat \<Rightarrow> error + fval" where
  "intersection_score s i =
     (case dict_get (density_reference s) (pc_key i) of Inl e \<Rightarrow> Inl e | Inr dr \<Rightarrow>
      case dict_get (density_test s) (pc_key i) of Inl e \<Rightarrow> Inl e | Inr dt \<Rightarrow>
        intersection_divergence dr dt)"

text \<open>The list \<^verbatim>\<open>change_scores\<close>: one score per component for a known metric, and
  the empty list for any other string.\<close>

definition change_scores :: "('p, 's, 'h) pcacd \<Rightarrow> nat \<Rightarrow> error + fval list" where
  "change_scores s n =
     (if divergence_metric s = ''kl'' then map_err (kl_score s) [0..<n]
      else if divergence_metric s = ''llh'' then map_err (llh_score s) [0..<n]
      else if divergence_metric s = ''intersection'' then map_err (intersection_score s) [0..<n]
      else Inr [])"

text \<open>
  The divergence evaluation of the monitoring phase: the test densities are rebuilt,
  the largest score is appended to the history and fed to the sequential test, and a
  drift reported by the test sets the drift state and the flag that makes the next
  call rebuild the windows.
\<close>

definition evaluate ::
  "('p, 's, 'h) backend \<Rightarrow> ('p, 's, 'h) pcacd \<Rightarrow> int
     \<Rightarrow> error option \<times> ('p, 's, 'h) pcacd" where
  "evaluate B s obs_id =
     (let s1 = s\<lparr> density_test := Map.empty \<rparr> in
      case num_pcs s1 of
        None \<Rightarrow> (Some TypeError, s1)
      | Some n \<Rightarrow>
          then_do (build_test s1 [0..<n]) (\<lambda>s2.
            case change_scores s2 n of
              Inl e \<Rightarrow> (Some e, s2)
            | Inr scores \<Rightarrow>
                (case py_max scores of
                   Inl e \<Rightarrow> (Some e, s2)
                 | Inr score \<Rightarrow>
                     (let s3 = s2\<lparr> change_score := change_score s2 @ [score] \<rparr>;
                          s4 = s3\<lparr> drift_detection_monitor :=
                                     ph_update B (drift_detection_monitor s3) score obs_id \<rparr>
                      in if ph_drift_state B (drift_detection_monitor s4) \<noteq> None then
                           (let s5 = s4\<lparr> build_reference_and_test := True,
                                         drift_state := Some Drift \<rparr>
                            in if track_state s5 then
                                 (None, s5\<lparr> drift_tracker :=
                                     map_option (\<lambda>t. t @ [drift_detection_monitor s5])
                                       (drift_tracker s5) \<rparr>)
                               else (None, s5))
                         else (None, s4)))))"

text \<open>The monitoring branch of \<^verbatim>\<open>update\<close> (\<^verbatim>\<open>_build_reference_and_test\<close> is false).\<close>

definition update_monitoring ::
  "('p, 's, 'h) backend \<Rightarrow> ('p, 's, 'h) pcacd \<Rightarrow> observation
     \<Rightarrow> error option \<times> ('p, 's, 'h) pcacd" where
  "update_monitoring B s next_obs =
     (case (if online_scaling s then
              (case reference_scaler s of
                 None \<Rightarrow> Inl AttributeError
               | Some sc \<Rightarrow>
                   (case scaler_transform B sc [obs_values next_obs] of
                      Inl e \<Rightarrow> Inl e
                    | Inr rows \<Rightarrow> Inr (rows, 0)))
            else Inr ([obs_values next_obs], obs_index next_obs)) of
        Inl e \<Rightarrow> (Some e, s)
      | Inr (rows, obs_id) \<Rightarrow>
          (let s1 = s\<lparr> test_window := df_append (drop 1 (test_window s)) rows \<rparr> in
           case pca s1 of
             None \<Rightarrow> (Some AttributeError, s1)
           | Some p \<Rightarrow>
               (case pca_transform B p [concat rows] of
                  Inl e \<Rightarrow> (Some e, s1)
                | Inr next_proj \<Rightarrow>
                    (let s2 = s1\<lparr> test_pca_projection :=
                                      drop 1 (test_pca_projection s1) @ next_proj \<rparr>
                     in if step s2 = 0 then (Some ZeroDivisionError, s2)
                        else if int (total_samples s2) mod step s2 = 0 \<and> total_samples s2 \<noteq> 0
                        then evaluate B s2 obs_id
                        else (None, s2)))))"

text \<open>
  The first branch of the filling phase: a drift was declared, so the test window
  becomes the reference window (unscaled again when online scaling is on), the test
  window is emptied and the detector and the sequential test are reset. The
  observation is not read.
\<close>

definition swap_windows ::
  "('p, 's, 'h) backend \<Rightarrow> ('p, 's, 'h) pcacd \<Rightarrow> error option \<times> ('p, 's, 'h) pcacd" where
  "swap_windows B s =
     (let s1 = s\<lparr> reference_window := test_window s \<rparr> in
      then_do
        (if online_scaling s1 then
           (case reference_scaler s1 of
              None \<Rightarrow> (Some AttributeError, s1)
            | Some sc \<Rightarrow>
                (case scaler_inverse_transform B sc (reference_window s1) of
                   Inl e \<Rightarrow> (Some e, s1)
                 | Inr r \<Rightarrow> (None, s1\<lparr> reference_window := r \<rparr>)))
         else (None, s1))
        (\<lambda>s2. (let s3 = base_reset (s2\<lparr> test_window := [] \<rparr>)
               in (None, s3\<lparr> drift_detection_monitor :=
                                 ph_reset B (drift_detection_monitor s3) \<rparr>))))"

text \<open>
  The transition to the monitoring phase, run when the test window has reached
  \<open>window_size\<close> rows: scaling, the principal components, both projections and the
  reference densities.
\<close>

definition fit_reference ::
  "('p, 's, 'h) backend \<Rightarrow> ('p, 's, 'h) pcacd \<Rightarrow> error option \<times> ('p, 's, 'h) pcacd" where
  "fit_reference B s =
     (let s1 = s\<lparr> build_reference_and_test := False \<rparr> in
      then_do
        (if online_scaling s1 then
           (case reference_scaler s1 of
              None \<Rightarrow> (Some AttributeError, s1)
            | Some sc \<Rightarrow>
                (case scaler_fit_transform B sc (reference_window s1) of
                   Inl e \<Rightarrow> (Some e, s1)
                 | Inr (sc1, r) \<Rightarrow>
                     (let s2 = s1\<lparr> reference_scaler := Some sc1, reference_window := r \<rparr> in
                      case scaler_transform B sc1 (test_window s2) of
                        Inl e \<Rightarrow> (Some e, s2)
                      | Inr t \<Rightarrow> (None, s2\<lparr> test_window := t \<rparr>))))
         else (None, s1))
        (\<lambda>s3.
          (let s4 = s3\<lparr> pca := Some (pca_new B (ev_threshold s3)) \<rparr> in
           case pca_fit B (pca_new B (ev_threshold s3)) (reference_window s4) of
             Inl e \<Rightarrow> (Some e, s4)
           | Inr p \<Rightarrow>
               (let s5 = s4\<lparr> pca := Some p, num_pcs := Some (length (pca_components B p)) \<rparr> in
                case pca_transform B p (reference_window s5) of
                  Inl e \<Rightarrow> (Some e, s5)
                | Inr rp \<Rightarrow>
                    (let s6 = s5\<lparr> reference_pca_projection := rp \<rparr> in
                     case pca_transform B p (test_window s6) of
                       Inl e \<Rightarrow> (Some e, s6)
                     | Inr tp \<Rightarrow>
                         build_reference (s6\<lparr> test_pca_projection := tp \<rparr>)
                           [0..<length (pca_components B p)])))))"

text \<open>The filling branch of \<^verbatim>\<open>update\<close> (\<^verbatim>\<open>_build_reference_and_test\<close> is true).\<close>

definition update_building ::
  "('p, 's, 'h) backend \<Rightarrow> ('p, 's, 'h) pcacd \<Rightarrow> observation
     \<Rightarrow> error option \<times> ('p, 's, 'h) pcacd" where
  "update_building B s next_obs =
     then_do
       (if drift_state s \<noteq> None then swap_windows B s
        else if int (length (reference_window s)) < window_size s then
          (None, s\<lparr> reference_window := df_append (reference_window s) [obs_values next_obs] \<rparr>)
        else if int (length (test_window s)) < window_size s then
          (None, s\<lparr> test_window := df_append (test_window s) [obs_values next_obs] \<rparr>)
        else (None, s))
       (\<lambda>s1. if int (length (test_window s1)) = window_size s1 then fit_reference B s1
              else (None, s1))"

text \<open>\<^verbatim>\<open>PCACD.update\<close>: one of the two branches, then the base class's \<^verbatim>\<open>update\<close>.\<close>

definition update ::
  "('p, 's, 'h) backend \<Rightarrow> ('p, 's, 'h) pcacd \<Rightarrow> observation
     \<Rightarrow> error option \<times> ('p, 's, 'h) pcacd" where
  "update B s next_obs =
     then_do
       (if build_reference_and_test s then update_building B s next_obs
        else update_monitoring B s next_obs)
       (\<lambda>s1. (None, base_update s1))"


section \<open>A backend for one-column streams\<close>

text \<open>
  To run the detector on concrete streams the library parameters are instantiated for
  observations of one column. There the principal component is the column itself,
  centred at the mean of the reference window; the scaler is the z-score of the
  reference window; the sequential test is a one-sided cumulative sum with the
  Page-Hinkley parameters. Each rejects a frame that is empty or whose rows are not
  one finite cell wide. Products are exact: for the factors of the example below
  (1/2 and 4, 1/100 and 4) the double product rounds to the same integer.
\<close>

definition column_values :: "frame \<Rightarrow> error + real list" where
  "column_values df =
     (if df = [] then Inl ValueError
      else map_err (\<lambda>r. case r of [Fin x] \<Rightarrow> Inr x | _ \<Rightarrow> Inl ValueError) df)"

definition ex_pca_fit :: "real option \<Rightarrow> frame \<Rightarrow> error + real option" where
  "ex_pca_fit p df =
     (case column_values df of Inl e \<Rightarrow> Inl e | Inr xs \<Rightarrow> Inr (Some (py_mean xs)))"

definition ex_pca_transform :: "real option \<Rightarrow> frame \<Rightarrow> error + real list list" where
  "ex_pca_transform p df =
     (case p of
        None \<Rightarrow> Inl AttributeError
      | Some m \<Rightarrow>
          (case column_values df of Inl e \<Rightarrow> Inl e | Inr xs \<Rightarrow> Inr (map (\<lambda>x. [x - m]) xs)))"

definition ex_scale :: "real list \<Rightarrow> real" where
  "ex_scale xs =
     (let v = sum_list (map (\<lambda>x. (x - py_mean xs)\<^sup>2) xs) / real (length xs)
      in if v = 0 then 1 else sqrt v)"

definition ex_scaler_fit_transform ::
  "(real \<times> real) option \<Rightarrow> frame \<Rightarrow> error + ((real \<times> real) option \<times> frame)" where
  "ex_scaler_fit_transform sc df =
     (case column_values df of
        Inl e \<Rightarrow> Inl e
      | Inr xs \<Rightarrow>
          Inr (Some (py_mean xs, ex_scale xs),
               map (\<lambda>x. [Fin ((x - py_mean xs) / ex_scale xs)]) xs))"

definition ex_scaler_transform :: "(real \<times> real) option \<Rightarrow> frame \<Rightarrow> error + frame" where
  "ex_scaler_transform sc df =
     (case sc of
        None \<Rightarrow> Inl AttributeError
      | Some (m, sd) \<Rightarrow>
          (case column_values df of
             Inl e \<Rightarrow> Inl e
           | Inr xs \<Rightarrow> Inr (map (\<lambda>x. [Fin ((x - m) / sd)]) xs)))"

definition ex_scaler_inverse_transform :: "(real \<times> real) option \<Rightarrow> frame \<Rightarrow> error + frame" where
  "ex_scaler_inverse_transform sc df =
     (case sc of
        None \<Rightarrow> Inl AttributeError
      | Some (m, sd) \<Rightarrow>
          (case column_values df of
             Inl e \<Rightarrow> Inl e
           | Inr xs \<Rightarrow> Inr (map (\<lambda>x. [Fin (x * sd + m)]) xs)))"

record seq_test =
  st_delta :: real
  st_threshold :: real
  st_sum :: real
  st_drift :: bool

definition ex_ph_update :: "seq_test \<Rightarrow> fval \<Rightarrow> int \<Rightarrow> seq_test" where
  "ex_ph_update t v obs_id =
     (case v of
        Fin x \<Rightarrow>
          (let c = max 0 (st_sum t + x - st_delta t)
           in t\<lparr> st_sum := c, st_drift := (st_threshold t < c) \<rparr>)
      | _ \<Rightarrow> t\<lparr> st_drift := True \<rparr>)"

definition ex_backend :: "(real option, (real \<times> real) option, seq_test) backend" where
  "ex_backend =
     \<lparr> pca_new = (\<lambda>ev. None),
       pca_fit = ex_pca_fit,
       pca_components = (\<lambda>p. [[1]]),
       pca_transform = ex_pca_transform,
       scaler_new = None,
       scaler_fit_transform = ex_scaler_fit_transform,
       scaler_transform = ex_scaler_transform,
       scaler_inverse_transform = ex_scaler_inverse_transform,
       ph_new = (\<lambda>dl th burn_in.
          \<lparr> st_delta = dl, st_threshold = of_int th, st_sum = 0, st_drift = False \<rparr>),
       ph_update = ex_ph_update,
       ph_reset = (\<lambda>t. t\<lparr> st_sum := 0, st_drift := False \<rparr>),
       ph_drift_state = (\<lambda>t. if st_drift t then Some Drift else None),
       float_mul = (\<lambda>a b. a * b) \<rparr>"

text \<open>
  An example detector: windows of four observations, the histogram metric, an
  evaluation every second observation; and a stream whose ninth observation is the
  first of the monitoring phase.
\<close>

definition ex_detector ::
  "bool \<Rightarrow> (real option, (real \<times> real) option, seq_test) pcacd" where
  "ex_detector scaling =
     projr (PCACD_init ex_backend 4 (99 / 100) (1 / 10) ''intersection'' (1 / 2) scaling False)"

definition obs1 :: "int \<Rightarrow> real \<Rightarrow> observation" where
  "obs1 i x = \<lparr> obs_index = i, obs_values = [Fin x] \<rparr>"

definition ex_fill :: "observation list" where
  "ex_fill = [obs1 0 0, obs1 1 0, obs1 2 2, obs1 3 2, obs1 4 0, obs1 5 0, obs1 6 2, obs1 7 2]"

section \<open>Notions used to state the properties\<close>

text \<open>
  The state that is derived from the reference window when the detector is fitted, and
  the configuration fixed by the constructor.
\<close>

definition reference_side ::
  "('p, 's, 'h) pcacd
     \<Rightarrow> frame \<times> 'p option \<times> nat option \<times> real list list \<times> (string \<rightharpoonup> density_est) \<times> 's option"
  where
  "reference_side s =
     (reference_window s, pca s, num_pcs s, reference_pca_projection s, density_reference s,
      reference_scaler s)"

definition config_of ::
  "('p, 's, 'h) pcacd
     \<Rightarrow> int \<times> real \<times> string \<times> bool \<times> real \<times> int \<times> int \<times> int \<times> real \<times> bool"
  where
  "config_of s =
     (window_size s, ev_threshold s, divergence_metric s, track_state s, sample_period s,
      step s, ph_threshold s, bins s, delta s, online_scaling s)"


text \<open>
  The example detector after the eight observations of \<open>ex_fill\<close> (fitted, in the
  monitoring phase), and after a ninth observation of value 2 (drift declared), with
  online scaling off or on.
\<close>

definition ex_monitoring ::
  "bool \<Rightarrow> (real option, (real \<times> real) option, seq_test) pcacd" where
  "ex_monitoring scaling =
     \<lparr> total_samples = 8,
       samples_since_reset = 8,
       drift_state = None,
       window_size = 4,
       ev_threshold = 99 / 100,
       divergence_metric = ''intersection'',
       track_state = False,
       sample_period = 1 / 2,
       step = 2,
       ph_threshold = 0,
       bins = 2,
       delta = 1 / 10,
       drift_detection_monitor =
         \<lparr> st_delta = 1 / 10, st_threshold = 0, st_sum = 0, st_drift = False \<rparr>,
       drift_tracker = None,
       num_pcs = Some 1,
       online_scaling = scaling,
       reference_scaler = (if scaling then Some (Some (1, 1)) else None),
       build_reference_and_test = False,
       reference_window =
         (if scaling then [[Fin (- 1)], [Fin (- 1)], [Fin 1], [Fin 1]]
          else [[Fin 0], [Fin 0], [Fin 2], [Fin 2]]),
       test_window =
         (if scaling then [[Fin (- 1)], [Fin (- 1)], [Fin 1], [Fin 1]]
          else [[Fin 0], [Fin 0], [Fin 2], [Fin 2]]),
       pca = Some (Some (if scaling then 0 else 1)),
       reference_pca_projection = [[- 1], [- 1], [1], [1]],
       test_pca_projection = [[- 1], [- 1], [1], [1]],
       density_reference = [''PC1'' \<mapsto> Hist_est [- 1, 0, 1] [Fin (1 / 2), Fin (1 / 2)]],
       density_test = Map.empty,
       change_score = [Fin 0] \<rparr>"

definition ex_drifted ::
  "bool \<Rightarrow> (real option, (real \<times> real) option, seq_test) pcacd" where
  "ex_drifted scaling =
     (ex_monitoring scaling)
       \<lparr> total_samples := 9,
         samples_since_reset := 9,
         drift_state := Some Drift,
         drift_detection_monitor :=
           \<lparr> st_delta = 1 / 10, st_threshold = 0, st_sum = 3 / 20, st_drift = True \<rparr>,
         build_reference_and_test := True,
         test_window :=
           (if scaling then [[Fin (- 1)], [Fin 1], [Fin 1], [Fin 1]]
            else [[Fin 0], [Fin 2], [Fin 2], [Fin 2]]),
         test_pca_projection := [[- 1], [1], [1], [1]],
         density_test := [''PC1'' \<mapsto> Hist_est [- 1, 0, 1] [Fin (1 / 4), Fin (3 / 4)]],
         change_score := [Fin 0, Fin (1 / 4)] \<rparr>"

text \<open>An observation with two columns, for a detector whose windows have one.\<close>

definition ex_wide_obs :: observation where
  "ex_wide_obs = \<lparr> obs_index = 8, obs_values = [Fin 0, Fin 0] \<rparr>"


text \<open>
  The density estimate that \<^verbatim>\<open>_build_kde\<close> returns for the sample 0, 2: the standard
  deviation is \<open>\<surd>2\<close>, the bandwidth below lies between 1 and 2, so each point is
  outside the kernel of the other and has density \<open>3 / (8 \<times> bandwidth)\<close>.
\<close>

definition ex_bandwidth :: real where
  "ex_bandwidth = 1.06 * sqrt 2 * (2 powr (- 1 / 5))"

definition ex_kde_reference :: density_est where
  "ex_kde_reference =
     KDE_est [Fin (3 / (8 * ex_bandwidth)), Fin (3 / (8 * ex_bandwidth))]
       \<lparr> kde_sample = [0, 2], kde_bandwidth = ex_bandwidth \<rparr>"

section \<open>Properties of the constructor\<close>

text \<open>
  Claim C1, as stated, fails: the constructor performs no validation. A metric outside
  the three known ones, a window size of zero and an explained-variance threshold
  outside (0, 1] are each accepted; none of the three configurations below is valid,
  and each yields a detector.
\<close>

theorem init_accepts_invalid_config:
  "\<not> valid_config 100 (99 / 100) ''bogus''
   \<and> \<not> isl (PCACD_init ex_backend 100 (99 / 100) (1 / 10) ''bogus'' (1 / 20) False False)
   \<and> \<not> valid_config 0 (99 / 100) ''kl''
   \<and> \<not> isl (PCACD_init ex_backend 0 (99 / 100) (1 / 10) ''kl'' (1 / 20) False False)
   \<and> \<not> valid_config 100 2 ''kl''
   \<and> \<not> isl (PCACD_init ex_backend 100 2 (1 / 10) ''kl'' (1 / 20) False False)"
  by (simp add: PCACD_init_def floor_sqrt_def valid_config_def known_metric_def)

text \<open>
  Claim C1 (amended): the constructor fails exactly when the window size is negative
  (the square root is NaN, and its conversion to an integer raises ValueError). For
  every other window size it returns a detector that stores the window size, the
  threshold and the metric as they were given, whatever their values.
\<close>

theorem init_fails_only_on_negative_window:
  "(w < 0 \<longrightarrow> PCACD_init B w ev dl metric period scaling track = Inl ValueError)
   \<and> (0 \<le> w \<longrightarrow>
        (\<exists>s. PCACD_init B w ev dl metric period scaling track = Inr s
           \<and> window_size s = w \<and> ev_threshold s = ev \<and> divergence_metric s = metric))"
  by (simp add: PCACD_init_def floor_sqrt_def)

theorem init_fails_only_on_negative_window_witness:
  "PCACD_init ex_backend (- 1) (99 / 100) (1 / 10) ''kl'' (1 / 20) False False = Inl ValueError
   \<and> (\<exists>s. PCACD_init ex_backend 0 2 (1 / 10) ''bogus'' (1 / 20) False False = Inr s
         \<and> window_size s = 0 \<and> ev_threshold s = 2 \<and> divergence_metric s = ''bogus'')"
  using init_fails_only_on_negative_window
          [of "- 1" ex_backend "99 / 100" "1 / 10" "''kl''" "1 / 20" False False]
        init_fails_only_on_negative_window
          [of 0 ex_backend 2 "1 / 10" "''bogus''" "1 / 20" False False]
  by simp

section \<open>The example stream, evaluated\<close>

lemma pc_key_0: "pc_key 0 = ''PC1''"
  by code_simp

lemma ex_hist_reference:
  "build_histograms [- 1, - 1, 1, 1] 2 (- 1, 1)
     = Inr (Hist_est [- 1, 0, 1] [Fin (1 / 2), Fin (1 / 2)])"
  by code_simp

lemma ex_hist_shifted:
  "build_histograms [- 1, 1, 1, 1] 2 (- 1, 1)
     = Inr (Hist_est [- 1, 0, 1] [Fin (1 / 4), Fin (3 / 4)])"
  by code_simp

lemma ex_hist_same:
  "build_histograms [- 1, 1, 1, - 1] 2 (- 1, 1)
     = Inr (Hist_est [- 1, 0, 1] [Fin (1 / 2), Fin (1 / 2)])"
  by code_simp

lemma ex_divergence_shifted:
  "intersection_divergence (Hist_est [- 1, 0, 1] [Fin (1 / 2), Fin (1 / 2)])
      (Hist_est [- 1, 0, 1] [Fin (1 / 4), Fin (3 / 4)]) = Inr (Fin (1 / 4))"
  by code_simp

lemma ex_divergence_same:
  "intersection_divergence (Hist_est [- 1, 0, 1] [Fin (1 / 2), Fin (1 / 2)])
      (Hist_est [- 1, 0, 1] [Fin (1 / 2), Fin (1 / 2)]) = Inr (Fin 0)"
  by code_simp

lemmas ex_defs =
  ex_detector_def PCACD_init_def floor_sqrt_def py_round_def ex_backend_def
  ex_fill_def obs1_def update_def update_building_def update_monitoring_def then_do_def
  base_update_def base_reset_def df_append_def df_width_def df_pad_def fit_reference_def
  swap_windows_def ex_pca_fit_def ex_pca_transform_def column_values_def py_mean_def
  ex_scaler_fit_transform_def ex_scaler_transform_def ex_scaler_inverse_transform_def
  ex_scale_def reference_density_def iloc_col_def py_min_real_def py_max_real_def
  evaluate_def test_density_def change_scores_def intersection_score_def dict_get_def
  py_max_def py_max2_def ex_ph_update_def ex_monitoring_def ex_drifted_def ex_wide_obs_def
  pc_key_0 ex_hist_reference ex_hist_shifted ex_hist_same
  ex_divergence_shifted ex_divergence_same Let_def





lemma ex_update_quiet:
  "update ex_backend (ex_monitoring False) (obs1 8 0)
     = (None, (ex_monitoring False)
          \<lparr> total_samples := 9, samples_since_reset := 9,
            test_window := [[Fin 0], [Fin 2], [Fin 2], [Fin 0]],
            test_pca_projection := [[- 1], [1], [1], [- 1]],
            density_test := [''PC1'' \<mapsto> Hist_est [- 1, 0, 1] [Fin (1 / 2), Fin (1 / 2)]],
            change_score := [Fin 0, Fin 0] \<rparr>)"
  by (simp add: ex_defs)

lemma ex_update_wide:
  "update ex_backend (ex_monitoring False) ex_wide_obs
     = (Some ValueError, (ex_monitoring False)
          \<lparr> test_window := [[Fin 0, NaN], [Fin 2, NaN], [Fin 2, NaN], [Fin 0, Fin 0]] \<rparr>)"
  by (simp add: ex_defs)

lemma ex_update_wide_scaled:
  "update ex_backend (ex_monitoring True) ex_wide_obs = (Some ValueError, ex_monitoring True)"
  by (simp add: ex_defs)

lemma ex_update_after_drift:
  "update ex_backend (ex_drifted scaling) x
     = (None, (ex_drifted scaling)
          \<lparr> reference_window := [[Fin 0], [Fin 2], [Fin 2], [Fin 2]],
            test_window := [],
            samples_since_reset := 1,
            drift_state := None,
            drift_detection_monitor :=
              \<lparr> st_delta = 1 / 10, st_threshold = 0, st_sum = 0, st_drift = False \<rparr>,
            total_samples := 10 \<rparr>)"
  by (cases scaling) (simp_all add: ex_defs)

section \<open>Properties of the update step\<close>

subsection \<open>What each part of a call can change\<close>

lemma then_do_None [simp]: "then_do (None, s) f = f s"
  by (simp add: then_do_def)

lemma then_do_Some [simp]: "then_do (Some e, s) f = (Some e, s)"
  by (simp add: then_do_def)

lemma length_df_append [simp]: "length (df_append df rows) = length df + length rows"
  by (simp add: df_append_def)

lemma build_test_only_density_test:
  "build_test s ks = (r, s') \<Longrightarrow> \<exists>dt. s' = s\<lparr> density_test := dt \<rparr>"
proof (induction ks arbitrary: s)
  case Nil
  then have "s' = s\<lparr> density_test := density_test s \<rparr>" by simp
  then show ?case by blast
next
  case (Cons k ks)
  show ?case
  proof (cases "test_density s k")
    case (Inl e)
    with Cons.prems have "s' = s\<lparr> density_test := density_test s \<rparr>" by simp
    then show ?thesis by blast
  next
    case (Inr d)
    show ?thesis
    proof (cases d)
      case None
      with Inr Cons.prems have "build_test s ks = (r, s')" by simp
      then show ?thesis by (rule Cons.IH)
    next
      case (Some h)
      with Inr Cons.prems
      have "build_test (s\<lparr> density_test := (density_test s)(pc_key k \<mapsto> h) \<rparr>) ks = (r, s')"
        by simp
      from Cons.IH [OF this] obtain dt where
        "s' = s\<lparr> density_test := (density_test s)(pc_key k \<mapsto> h) \<rparr>\<lparr> density_test := dt \<rparr>"
        by blast
      then have "s' = s\<lparr> density_test := dt \<rparr>" by simp
      then show ?thesis by blast
    qed
  qed
qed


lemma evaluate_frame:
  assumes "evaluate B s i = (r, s')"
  shows "reference_side s' = reference_side s \<and> config_of s' = config_of s
    \<and> total_samples s' = total_samples s \<and> samples_since_reset s' = samples_since_reset s
    \<and> test_window s' = test_window s \<and> test_pca_projection s' = test_pca_projection s
    \<and> (\<not> build_reference_and_test s'
         \<longrightarrow> drift_state s' = drift_state s \<and> drift_tracker s' = drift_tracker s)"
proof (cases "num_pcs s")
  case None
  with assms show ?thesis
    by (auto simp: evaluate_def Let_def reference_side_def config_of_def)
next
  case (Some n)
  obtain r2 s2 where bt: "build_test (s\<lparr> density_test := Map.empty \<rparr>) [0..<n] = (r2, s2)"
    by (cases "build_test (s\<lparr> density_test := Map.empty \<rparr>) [0..<n]") auto
  from build_test_only_density_test [OF bt] obtain dt where
    s2: "s2 = s\<lparr> density_test := dt \<rparr>" by auto
  from assms Some bt show ?thesis
    unfolding s2
    by (cases r2)
       (auto simp: evaluate_def Let_def reference_side_def config_of_def
             split: option.splits sum.splits if_splits)
qed


lemma update_monitoring_cases:
  assumes "update_monitoring B s x = (r, s')"
  shows "\<exists>tw tp. s' = s\<lparr> test_window := tw, test_pca_projection := tp \<rparr>
           \<or> (\<exists>i. evaluate B (s\<lparr> test_window := tw, test_pca_projection := tp \<rparr>) i = (r, s'))"
proof (cases "if online_scaling s then
              (case reference_scaler s of
                 None \<Rightarrow> Inl AttributeError
               | Some sc \<Rightarrow>
                   (case scaler_transform B sc [obs_values x] of
                      Inl e \<Rightarrow> Inl e
                    | Inr rows \<Rightarrow> Inr (rows, 0)))
            else Inr ([obs_values x], obs_index x)")
  case (Inl e)
  with assms
  have "s' = s\<lparr> test_window := test_window s, test_pca_projection := test_pca_projection s \<rparr>"
    by (simp add: update_monitoring_def)
  then show ?thesis by blast
next
  case (Inr p)
  obtain rows i where p: "p = (rows, i)" by (cases p)
  let ?tw = "df_append (drop 1 (test_window s)) rows"
  have one: "s\<lparr> test_window := ?tw \<rparr>
      = s\<lparr> test_window := ?tw, test_pca_projection := test_pca_projection s \<rparr>"
    by simp
  show ?thesis
  proof (cases "pca s")
    case None
    with assms Inr p have "s' = s\<lparr> test_window := ?tw \<rparr>"
      by (simp add: update_monitoring_def Let_def)
    with one show ?thesis by metis
  next
    case (Some q)
    show ?thesis
    proof (cases "pca_transform B q [concat rows]")
      case (Inl e)
      with assms Inr p Some have "s' = s\<lparr> test_window := ?tw \<rparr>"
        by (simp add: update_monitoring_def Let_def)
      with one show ?thesis by metis
    next
      case tr: (Inr np)
      let ?s2 = "s\<lparr> test_window := ?tw,
                     test_pca_projection := drop 1 (test_pca_projection s) @ np \<rparr>"
      from assms Inr p Some tr
      have "s' = ?s2 \<or> evaluate B ?s2 i = (r, s')"
        by (simp add: update_monitoring_def Let_def split: if_splits)
      then show ?thesis by blast
    qed
  qed
qed


lemma update_monitoring_frame:
  assumes "update_monitoring B s x = (r, s')"
  shows "reference_side s' = reference_side s \<and> config_of s' = config_of s
    \<and> total_samples s' = total_samples s \<and> samples_since_reset s' = samples_since_reset s
    \<and> (\<not> build_reference_and_test s' \<and> \<not> build_reference_and_test s
         \<longrightarrow> drift_state s' = drift_state s \<and> drift_tracker s' = drift_tracker s)"
proof -
  from update_monitoring_cases [OF assms] obtain tw tp where
    c: "s' = s\<lparr> test_window := tw, test_pca_projection := tp \<rparr>
        \<or> (\<exists>i. evaluate B (s\<lparr> test_window := tw, test_pca_projection := tp \<rparr>) i = (r, s'))"
    by blast
  show ?thesis
  proof (cases "s' = s\<lparr> test_window := tw, test_pca_projection := tp \<rparr>")
    case True
    then show ?thesis by (simp add: reference_side_def config_of_def)
  next
    case False
    with c obtain i where
      "evaluate B (s\<lparr> test_window := tw, test_pca_projection := tp \<rparr>) i = (r, s')" by blast
    from evaluate_frame [OF this] show ?thesis
      by (simp add: reference_side_def config_of_def)
  qed
qed

lemma swap_windows_fields:
  assumes "swap_windows B s = (r, s')"
  shows "config_of s' = config_of s" and "total_samples s' = total_samples s"
  using assms
  by (auto simp: swap_windows_def base_reset_def Let_def config_of_def
           split: option.splits sum.splits if_splits)

lemma swap_windows_result:
  assumes "swap_windows B s = (None, s')"
  shows "test_window s' = [] \<and> samples_since_reset s' = 0 \<and> drift_state s' = None
     \<and> (\<not> online_scaling s \<longrightarrow> reference_window s' = test_window s)"
  using assms
  by (auto simp: swap_windows_def base_reset_def Let_def
           split: option.splits sum.splits if_splits)






subsection \<open>The first filling phase\<close>




subsection \<open>The evaluation cadence\<close>




subsection \<open>The call after a drift\<close>

text \<open>
  Claim C6: in a state in which drift has been declared, the next call to update makes
  the test window the reference window (passed through the inverse of the scaler when
  online scaling is on), empties the test window, and resets the drift state, the
  sequential test and the count of samples since the reset, which then counts this
  call; the lifetime counter advances by one.
\<close>

theorem drift_swaps_test_into_reference:
  assumes "build_reference_and_test s" and "drift_state s \<noteq> None" and "0 < window_size s"
    and "online_scaling s \<longrightarrow>
           reference_scaler s = Some sc \<and> scaler_inverse_transform B sc (test_window s) = Inr w"
  shows "update B s x =
           (None, s\<lparr> reference_window := (if online_scaling s then w else test_window s),
                     test_window := [],
                     samples_since_reset := 1,
                     drift_state := None,
                     drift_detection_monitor := ph_reset B (drift_detection_monitor s),
                     total_samples := total_samples s + 1 \<rparr>)"
  using assms
  by (simp add: update_def update_building_def swap_windows_def base_reset_def base_update_def
        Let_def)

theorem drift_swaps_test_into_reference_witness:
  "build_reference_and_test (ex_drifted True) \<and> drift_state (ex_drifted True) \<noteq> None
   \<and> 0 < window_size (ex_drifted True) \<and> online_scaling (ex_drifted True)
   \<and> reference_scaler (ex_drifted True) = Some (Some (1, 1))
   \<and> test_window (ex_drifted True) = [[Fin (- 1)], [Fin 1], [Fin 1], [Fin 1]]
   \<and> scaler_inverse_transform ex_backend (Some (1, 1)) (test_window (ex_drifted True))
       = Inr [[Fin 0], [Fin 2], [Fin 2], [Fin 2]]
   \<and> reference_window (snd (update ex_backend (ex_drifted True) (obs1 9 5)))
       = [[Fin 0], [Fin 2], [Fin 2], [Fin 2]]
   \<and> test_window (snd (update ex_backend (ex_drifted True) (obs1 9 5))) = []
   \<and> \<not> online_scaling (ex_drifted False)
   \<and> reference_window (snd (update ex_backend (ex_drifted False) (obs1 9 5)))
       = test_window (ex_drifted False)"
proof -
  have a: "build_reference_and_test (ex_drifted b)" "drift_state (ex_drifted b) \<noteq> None"
    "0 < window_size (ex_drifted b)" for b
    by (simp_all add: ex_drifted_def ex_monitoring_def)
  have t: "online_scaling (ex_drifted True) \<longrightarrow>
        reference_scaler (ex_drifted True) = Some (Some (1, 1))
      \<and> scaler_inverse_transform ex_backend (Some (1, 1)) (test_window (ex_drifted True))
          = Inr [[Fin 0], [Fin 2], [Fin 2], [Fin 2]]"
    by (simp add: ex_drifted_def ex_monitoring_def ex_backend_def
          ex_scaler_inverse_transform_def column_values_def)
  have f: "online_scaling (ex_drifted False) \<longrightarrow>
        reference_scaler (ex_drifted False) = Some None
      \<and> scaler_inverse_transform ex_backend None (test_window (ex_drifted False)) = Inr []"
    by (simp add: ex_drifted_def ex_monitoring_def)
  from drift_swaps_test_into_reference [OF a(1) a(2) a(3) t, of "obs1 9 5"]
       drift_swaps_test_into_reference [OF a(1) a(2) a(3) f, of "obs1 9 5"]
  show ?thesis
    using a t by (simp add: ex_drifted_def ex_monitoring_def)
qed

text \<open>
  Claim C10: in a state in which drift has been declared, the observation passed to
  the next call is never read: the call gives the same result whatever the
  observation. For a positive window size a call that returns leaves the test window
  empty and, without online scaling, the reference window equal to the old test
  window, so the observation is in neither; it is counted once in each sample counter.
\<close>

theorem observation_after_drift_is_discarded:
  assumes "build_reference_and_test s" and "drift_state s \<noteq> None"
  shows "update B s x = update B s y
     \<and> (0 < window_size s \<and> fst (update B s x) = None \<longrightarrow>
          test_window (snd (update B s x)) = []
        \<and> (\<not> online_scaling s \<longrightarrow> reference_window (snd (update B s x)) = test_window s)
        \<and> total_samples (snd (update B s x)) = total_samples s + 1
        \<and> samples_since_reset (snd (update B s x)) = 1)"
proof -
  have same: "update B s x = update B s y"
    using assms by (simp add: update_def update_building_def)
  obtain r1 s1 where sw: "swap_windows B s = (r1, s1)" by (cases "swap_windows B s") auto
  have "test_window (snd (update B s x)) = []
        \<and> (\<not> online_scaling s \<longrightarrow> reference_window (snd (update B s x)) = test_window s)
        \<and> total_samples (snd (update B s x)) = total_samples s + 1
        \<and> samples_since_reset (snd (update B s x)) = 1"
    if w: "0 < window_size s" and ok: "fst (update B s x) = None"
  proof (cases r1)
    case (Some e)
    with sw assms ok show ?thesis by (simp add: update_def update_building_def)
  next
    case None
    from sw [unfolded None] swap_windows_result [OF sw [unfolded None]]
      swap_windows_fields [OF sw] w assms
    show ?thesis
      by (auto simp: update_def update_building_def base_update_def config_of_def)
  qed
  with same show ?thesis by blast
qed

theorem observation_after_drift_is_discarded_witness:
  "build_reference_and_test (ex_drifted False) \<and> drift_state (ex_drifted False) \<noteq> None
   \<and> 0 < window_size (ex_drifted False)
   \<and> fst (update ex_backend (ex_drifted False) (obs1 9 5)) = None
   \<and> obs1 9 5 \<noteq> obs1 9 7
   \<and> update ex_backend (ex_drifted False) (obs1 9 5)
       = update ex_backend (ex_drifted False) (obs1 9 7)
   \<and> test_window (snd (update ex_backend (ex_drifted False) (obs1 9 5))) = []
   \<and> reference_window (snd (update ex_backend (ex_drifted False) (obs1 9 5)))
       = [[Fin 0], [Fin 2], [Fin 2], [Fin 2]]
   \<and> total_samples (snd (update ex_backend (ex_drifted False) (obs1 9 5))) = 10"
proof -
  have a: "build_reference_and_test (ex_drifted False)" "drift_state (ex_drifted False) \<noteq> None"
    by (simp_all add: ex_drifted_def ex_monitoring_def)
  have b: "0 < window_size (ex_drifted False)" "\<not> online_scaling (ex_drifted False)"
    "total_samples (ex_drifted False) = 9"
    "test_window (ex_drifted False) = [[Fin 0], [Fin 2], [Fin 2], [Fin 2]]"
    by (simp_all add: ex_drifted_def ex_monitoring_def)
  have c: "fst (update ex_backend (ex_drifted False) (obs1 9 5)) = None"
    by (simp add: ex_update_after_drift)
  have ne: "obs1 9 5 \<noteq> obs1 9 7" by (simp add: obs1_def)
  note th = observation_after_drift_is_discarded [OF a, of ex_backend "obs1 9 5" "obs1 9 7"]
  from th have e: "update ex_backend (ex_drifted False) (obs1 9 5)
        = update ex_backend (ex_drifted False) (obs1 9 7)"
    by (rule conjunct1)
  from th b(1) c
  have "test_window (snd (update ex_backend (ex_drifted False) (obs1 9 5))) = []
      \<and> (\<not> online_scaling (ex_drifted False) \<longrightarrow>
           reference_window (snd (update ex_backend (ex_drifted False) (obs1 9 5)))
             = test_window (ex_drifted False))
      \<and> total_samples (snd (update ex_backend (ex_drifted False) (obs1 9 5)))
           = total_samples (ex_drifted False) + 1
      \<and> samples_since_reset (snd (update ex_backend (ex_drifted False) (obs1 9 5))) = 1"
    by blast
  with b have r: "test_window (snd (update ex_backend (ex_drifted False) (obs1 9 5))) = []"
    "reference_window (snd (update ex_backend (ex_drifted False) (obs1 9 5)))
       = [[Fin 0], [Fin 2], [Fin 2], [Fin 2]]"
    "total_samples (snd (update ex_backend (ex_drifted False) (obs1 9 5))) = 10"
    by simp_all
  from a b(1) c ne e r show ?thesis by blast
qed

subsection \<open>The monitoring phase\<close>

text \<open>
  Claim C8: a call to update made in the monitoring phase leaves the reference window,
  the fitted PCA and its number of components, the reference projection, the
  reference density map and the fitted scaler unchanged, whether the call returns,
  raises or declares a drift; and a call that does not leave the monitoring phase
  leaves the drift state and the log of snapshots unchanged as well.
\<close>

theorem monitoring_keeps_reference_side:
  assumes "\<not> build_reference_and_test s" and "update B s x = (r, s')"
  shows "reference_window s' = reference_window s \<and> pca s' = pca s
     \<and> num_pcs s' = num_pcs s
     \<and> reference_pca_projection s' = reference_pca_projection s
     \<and> density_reference s' = density_reference s
     \<and> reference_scaler s' = reference_scaler s
     \<and> (\<not> build_reference_and_test s' \<longrightarrow>
          drift_state s' = drift_state s \<and> drift_tracker s' = drift_tracker s)"
proof -
  obtain r1 s1 where m: "update_monitoring B s x = (r1, s1)"
    by (cases "update_monitoring B s x") auto
  from update_monitoring_frame [OF m]
  have one: "reference_side s1 = reference_side s"
    "\<not> build_reference_and_test s1 \<and> \<not> build_reference_and_test s
       \<longrightarrow> drift_state s1 = drift_state s \<and> drift_tracker s1 = drift_tracker s"
    by simp_all
  from assms m have two: "reference_side s' = reference_side s1"
    "build_reference_and_test s' = build_reference_and_test s1"
    "drift_state s' = drift_state s1" "drift_tracker s' = drift_tracker s1"
    by (cases r1; auto simp: update_def base_update_def reference_side_def)+
  from one two assms(1) show ?thesis by (auto simp: reference_side_def)
qed

theorem monitoring_keeps_reference_side_witness:
  "\<not> build_reference_and_test (ex_monitoring False)
   \<and> fst (update ex_backend (ex_monitoring False) (obs1 8 0)) = None
   \<and> change_score (snd (update ex_backend (ex_monitoring False) (obs1 8 0))) = [Fin 0, Fin 0]
   \<and> \<not> build_reference_and_test (snd (update ex_backend (ex_monitoring False) (obs1 8 0)))
   \<and> reference_window (snd (update ex_backend (ex_monitoring False) (obs1 8 0)))
       = [[Fin 0], [Fin 0], [Fin 2], [Fin 2]]
   \<and> pca (snd (update ex_backend (ex_monitoring False) (obs1 8 0))) = Some (Some 1)
   \<and> reference_pca_projection (snd (update ex_backend (ex_monitoring False) (obs1 8 0)))
       = [[- 1], [- 1], [1], [1]]
   \<and> density_reference (snd (update ex_backend (ex_monitoring False) (obs1 8 0)))
       = density_reference (ex_monitoring False)
   \<and> drift_state (snd (update ex_backend (ex_monitoring False) (obs1 8 0))) = None"
proof -
  have a: "\<not> build_reference_and_test (ex_monitoring False)"
    by (simp add: ex_monitoring_def)
  have b: "update ex_backend (ex_monitoring False) (obs1 8 0)
        = (fst (update ex_backend (ex_monitoring False) (obs1 8 0)),
           snd (update ex_backend (ex_monitoring False) (obs1 8 0)))"
    by simp
  have c: "fst (update ex_backend (ex_monitoring False) (obs1 8 0)) = None"
    "change_score (snd (update ex_backend (ex_monitoring False) (obs1 8 0))) = [Fin 0, Fin 0]"
    "\<not> build_reference_and_test (snd (update ex_backend (ex_monitoring False) (obs1 8 0)))"
    using a by (simp_all add: ex_update_quiet)
  from monitoring_keeps_reference_side [OF a b]
  show ?thesis
    using a c by (simp add: ex_monitoring_def)
qed

text \<open>
  Claim C9, as stated, fails: the test window is slid before the PCA looks at the
  observation. In the example a two-column observation offered to the fitted
  one-column detector makes the call raise ValueError, and the test window it leaves
  has lost its oldest row and gained the rejected observation, with the columns aligned.
\<close>

theorem mismatch_mutates_test_window:
  "\<not> build_reference_and_test (ex_monitoring False)
   \<and> fst (update ex_backend (ex_monitoring False) ex_wide_obs) = Some ValueError
   \<and> test_window (ex_monitoring False) = [[Fin 0], [Fin 0], [Fin 2], [Fin 2]]
   \<and> test_window (snd (update ex_backend (ex_monitoring False) ex_wide_obs))
       = [[Fin 0, NaN], [Fin 2, NaN], [Fin 2, NaN], [Fin 0, Fin 0]]"
  by (simp add: ex_update_wide) (simp add: ex_monitoring_def)

text \<open>
  Claim C9 (amended): a call in the monitoring phase whose observation the PCA
  transform rejects fails with the transform's error; without online scaling the state
  it leaves is the state before the call except for the test window, which has been
  slid by one row (the oldest row evicted, the rejected observation appended), so the
  test projection, the change-score history and the counters are unchanged. With
  online scaling, an observation the scaler rejects leaves the state exactly as it was.
\<close>

theorem mismatch_failure_leaves_slid_window:
  assumes "\<not> build_reference_and_test s"
  shows "(\<not> online_scaling s \<and> pca s = Some p \<and> pca_transform B p [obs_values x] = Inl e
           \<longrightarrow> update B s x
                = (Some e, s\<lparr> test_window := df_append (drop 1 (test_window s)) [obs_values x] \<rparr>))
       \<and> (online_scaling s \<and> reference_scaler s = Some sc
            \<and> scaler_transform B sc [obs_values x] = Inl e
           \<longrightarrow> update B s x = (Some e, s))"
  using assms by (simp add: update_def update_monitoring_def Let_def)

theorem mismatch_failure_leaves_slid_window_witness:
  "\<not> build_reference_and_test (ex_monitoring False) \<and> \<not> online_scaling (ex_monitoring False)
   \<and> pca (ex_monitoring False) = Some (Some 1)
   \<and> pca_transform ex_backend (Some 1) [obs_values ex_wide_obs] = Inl ValueError
   \<and> update ex_backend (ex_monitoring False) ex_wide_obs
       = (Some ValueError,
          (ex_monitoring False)
            \<lparr> test_window :=
                df_append (drop 1 (test_window (ex_monitoring False))) [obs_values ex_wide_obs] \<rparr>)
   \<and> \<not> build_reference_and_test (ex_monitoring True) \<and> online_scaling (ex_monitoring True)
   \<and> reference_scaler (ex_monitoring True) = Some (Some (1, 1))
   \<and> scaler_transform ex_backend (Some (1, 1)) [obs_values ex_wide_obs] = Inl ValueError
   \<and> update ex_backend (ex_monitoring True) ex_wide_obs = (Some ValueError, ex_monitoring True)"
proof -
  have a: "\<not> build_reference_and_test (ex_monitoring b)" for b
    by (simp add: ex_monitoring_def)
  have f: "\<not> online_scaling (ex_monitoring False)" "pca (ex_monitoring False) = Some (Some 1)"
    "pca_transform ex_backend (Some 1) [obs_values ex_wide_obs] = Inl ValueError"
    by (simp_all add: ex_monitoring_def ex_backend_def ex_pca_transform_def column_values_def
          ex_wide_obs_def)
  have t: "online_scaling (ex_monitoring True)"
    "reference_scaler (ex_monitoring True) = Some (Some (1, 1))"
    "scaler_transform ex_backend (Some (1, 1)) [obs_values ex_wide_obs] = Inl ValueError"
    by (simp_all add: ex_monitoring_def ex_backend_def ex_scaler_transform_def column_values_def
          ex_wide_obs_def)
  from mismatch_failure_leaves_slid_window
         [OF a, of False "Some 1" ex_backend ex_wide_obs ValueError "Some (1, 1)"]
       mismatch_failure_leaves_slid_window
         [OF a, of True "Some 1" ex_backend ex_wide_obs ValueError "Some (1, 1)"]
  show ?thesis
    using a f t by simp
qed


section \<open>Properties of the density estimates and the divergences\<close>

subsection \<open>Kernel density estimate of a constant sample\<close>

lemma sum_list_const:
  "\<forall>x \<in> set xs. x = c \<Longrightarrow> sum_list xs = real (length xs) * (c::real)"
  by (induction xs) (auto simp: algebra_simps)

lemma stdev_const:
  assumes "\<forall>x \<in> set xs. x = c" and "2 \<le> length xs"
  shows "stdev xs = Inr 0"
proof -
  from assms(2) have ne: "xs \<noteq> []" by auto
  from assms ne have m: "py_mean xs = c"
    by (simp add: py_mean_def sum_list_const)
  have "\<forall>y \<in> set (map (\<lambda>x. (x - c)\<^sup>2) xs). y = 0" using assms(1) by auto
  then have "sum_list (map (\<lambda>x. (x - c)\<^sup>2) xs) = 0"
    by (simp add: sum_list_const [where c = 0])
  with assms(2) m show ?thesis by (simp add: stdev_def)
qed

text \<open>
  Claim C7: a sample of zero variance (all its values equal) never yields a density
  estimate from \<^verbatim>\<open>_build_kde\<close>, so no NaN or infinite bandwidth or density value is
  returned: the call raises. With two or more values the standard deviation is 0, the
  bandwidth is 0 and the estimator refuses it with ValueError; with fewer than two
  values the standard deviation itself raises StatisticsError.
\<close>

theorem zero_variance_kde_raises:
  assumes "\<forall>x \<in> set sample. x = c"
  shows "build_kde sample = Inl (if length sample < 2 then StatisticsError else ValueError)"
proof (cases "length sample < 2")
  case True
  then show ?thesis by (simp add: build_kde_def stdev_def)
next
  case False
  then have "stdev sample = Inr 0" using stdev_const [OF assms] by simp
  with False show ?thesis by (simp add: build_kde_def KernelDensity_fit_def)
qed

theorem zero_variance_kde_raises_witness:
  "build_kde [3, 3, 3] = Inl ValueError \<and> build_kde [3] = Inl StatisticsError
   \<and> build_kde [] = Inl StatisticsError"
  using zero_variance_kde_raises [of "[3, 3, 3]" 3] zero_variance_kde_raises [of "[3]" 3]
        zero_variance_kde_raises [of "[]" 3]
  by simp

subsection \<open>Log-likelihood divergence\<close>

lemma fabs_fsub_commute: "fabs (fsub a b) = fabs (fsub b a)"
  by (cases a; cases b) (simp_all add: fsub_def)

lemma ex_bandwidth_bounds: "1 < ex_bandwidth \<and> ex_bandwidth < 2"
proof -
  have a: "(2::real) powr (- 1 / 5) < 2 powr 0" by (rule powr_less_mono) simp_all
  have b: "(2::real) powr (- (1 / 2)) < 2 powr (- 1 / 5)" by (rule powr_less_mono) simp_all
  have c: "(2::real) powr (- (1 / 2)) = 1 / sqrt 2"
    by (simp add: powr_minus powr_half_sqrt field_simps)
  have d: "sqrt 2 < (3 / 2 :: real)" by (rule real_less_lsqrt) (simp_all add: power2_eq_square)
  have e: "1 < sqrt (2::real)" by simp
  from b c have lo: "1 < sqrt 2 * 2 powr (- 1 / 5)"
    using e by (simp add: field_simps)
  from a have x: "(2::real) powr (- 1 / 5) < 1" by simp
  have "sqrt 2 * 2 powr (- 1 / 5) < sqrt 2 * 1"
    using x by (rule mult_strict_left_mono) simp
  with d have hi: "sqrt 2 * 2 powr (- 1 / 5) < 3 / 2" by linarith
  from lo hi show ?thesis by (simp add: ex_bandwidth_def)
qed

lemma ex_stdev: "stdev [0, 2] = Inr (sqrt 2)"
  by (simp add: stdev_def py_mean_def)

lemma ex_kde_pdf:
  "kde_pdf \<lparr> kde_sample = [0, 2], kde_bandwidth = ex_bandwidth \<rparr> 0 = 3 / (8 * ex_bandwidth)"
  "kde_pdf \<lparr> kde_sample = [0, 2], kde_bandwidth = ex_bandwidth \<rparr> 2 = 3 / (8 * ex_bandwidth)"
  using ex_bandwidth_bounds
  by (simp_all add: kde_pdf_def epanechnikov_kernel_def field_simps)

lemma ex_build_kde: "build_kde [0, 2] = Inr ex_kde_reference"
proof -
  have bw: "1.06 * sqrt 2 * (real (length [0, 2 :: real]) powr (- 1 / 5)) = ex_bandwidth"
    by (simp add: ex_bandwidth_def)
  have p: "0 < 3 / (8 * ex_bandwidth)" using ex_bandwidth_bounds by simp
  have f: "KernelDensity_fit ex_bandwidth [0, 2]
             = Inr \<lparr> kde_sample = [0, 2], kde_bandwidth = ex_bandwidth \<rparr>"
    using ex_bandwidth_bounds by (simp add: KernelDensity_fit_def)
  have sc: "score_samples \<lparr> kde_sample = [0, 2], kde_bandwidth = ex_bandwidth \<rparr> [0, 2]
             = Inr [Fin (ln (3 / (8 * ex_bandwidth))), Fin (ln (3 / (8 * ex_bandwidth)))]"
    using p by (simp add: score_samples_def ex_kde_pdf)
  show ?thesis
    unfolding build_kde_def Let_def ex_stdev sum.case bw f sc
    using p by (simp add: ex_kde_reference_def)
qed

text \<open>
  Claim C3, as stated, fails: the total of the test scores is divided by the number of
  reference values and the total of the reference log-densities by the number of test
  points. Take as reference the estimate that \<^verbatim>\<open>_build_kde\<close> returns for the sample
  0, 2 and as test sample the single point 0. Every point has the same log-density, so
  the two totals of the claim, each divided by the length of its own sample, are equal
  and their difference is 0; the code returns \<open>3/2 \<times> ln (8 \<times> bandwidth / 3)\<close>, which is
  positive.
\<close>

theorem llh_divergence_swaps_divisors:
  "build_kde [0, 2] = Inr ex_kde_reference
   \<and> llh_divergence ex_kde_reference [0] = Inr (Fin (3 / 2 * ln (8 * ex_bandwidth / 3)))
   \<and> llh_divergence_spec ex_kde_reference [0] = Inr (Fin 0)
   \<and> 0 < ln (8 * ex_bandwidth / 3)"
proof -
  have p: "0 < 3 / (8 * ex_bandwidth)" using ex_bandwidth_bounds by simp
  have l: "ln (3 / (8 * ex_bandwidth)) = - ln (8 * ex_bandwidth / 3)"
    using ln_inverse [of "8 * ex_bandwidth / 3"] ex_bandwidth_bounds by (simp add: field_simps)
  have g: "0 < ln (8 * ex_bandwidth / 3)" using ex_bandwidth_bounds by simp
  have a: "llh_divergence ex_kde_reference [0] = Inr (Fin (3 / 2 * ln (8 * ex_bandwidth / 3)))"
    using p g
    by (simp add: llh_divergence_def ex_kde_reference_def score_samples_def ex_kde_pdf
          fsub_def l)
  have b: "llh_divergence_spec ex_kde_reference [0] = Inr (Fin 0)"
    using p g
    by (simp add: llh_divergence_spec_def ex_kde_reference_def score_samples_def ex_kde_pdf
          fsub_def l)
  from ex_build_kde a b g show ?thesis by simp
qed

text \<open>
  Claim C3 (amended): for every reference density with a kernel object and every
  non-empty test sample, \<^verbatim>\<open>_llh_divergence\<close> returns the absolute difference between
  the total log-likelihood of the test sample under the reference kernel divided by
  the number of reference density values, and the total of the logarithms of the
  reference density values divided by the number of test points. When the two samples
  have the same length this is the absolute difference of the two totals, each
  divided by the length of its own sample.
\<close>

theorem llh_divergence_divides_by_other_length:
  assumes "ts \<noteq> []"
  shows "llh_divergence (KDE_est dens k) ts
           = Inr (fabs (fsub
               (fdiv (fsum (map (\<lambda>x. flog (Fin (kde_pdf k x))) ts)) (Fin (real (length dens))))
               (fdiv (fsum (map flog dens)) (Fin (real (length ts))))))
     \<and> (length dens = length ts \<longrightarrow>
          llh_divergence (KDE_est dens k) ts = llh_divergence_spec (KDE_est dens k) ts
        \<and> llh_divergence (KDE_est dens k) ts
           = Inr (fabs (fsub
               (fdiv (fsum (map flog dens)) (Fin (real (length dens))))
               (fdiv (fsum (map (\<lambda>x. flog (Fin (kde_pdf k x))) ts)) (Fin (real (length ts)))))))"
  using assms
  by (simp add: llh_divergence_def llh_divergence_spec_def score_samples_def Let_def
        fabs_fsub_commute)

theorem llh_divergence_divides_by_other_length_witness:
  "build_kde [0, 2] = Inr ex_kde_reference
   \<and> llh_divergence ex_kde_reference [0, 2] = Inr (Fin 0)
   \<and> llh_divergence_spec ex_kde_reference [0, 2] = Inr (Fin 0)"
proof -
  note th = llh_divergence_divides_by_other_length
    [of "[0, 2]" "[Fin (3 / (8 * ex_bandwidth)), Fin (3 / (8 * ex_bandwidth))]"
        "\<lparr> kde_sample = [0, 2], kde_bandwidth = ex_bandwidth \<rparr>"]
  have p: "0 < 3 / (8 * ex_bandwidth)" using ex_bandwidth_bounds by simp
  have e1: "llh_divergence ex_kde_reference [0, 2] = Inr (Fin 0)"
    using th [THEN conjunct1] p by (simp add: ex_kde_reference_def ex_kde_pdf fsub_def)
  have e2: "llh_divergence ex_kde_reference [0, 2] = llh_divergence_spec ex_kde_reference [0, 2]"
    using th [THEN conjunct2] by (simp add: ex_kde_reference_def)
  from e1 e2 ex_build_kde show ?thesis by metis
qed

subsection \<open>Histogram intersection\<close>









lemma length_bin_counts [simp]: "length (bin_counts lo hi n xs) = n"
  by (simp add: bin_counts_def)



lemma fminimum_Fin [simp]: "fminimum (Fin a) (Fin b) = Fin (min a b)"
  by (simp add: fminimum_def min_def)







lemma foldl_min_le:
  "foldl (\<lambda>m y. if y < m then y else m) a xs \<le> (a::real)
   \<and> (\<forall>x \<in> set xs. foldl (\<lambda>m y. if y < m then y else m) a xs \<le> x)"
proof (induction xs arbitrary: a)
  case Nil
  then show ?case by simp
next
  case (Cons y ys)
  from Cons.IH [of "if y < a then y else a"] show ?case by auto
qed

lemma foldl_max_ge:
  "(a::real) \<le> foldl (\<lambda>m y. if m < y then y else m) a xs
   \<and> (\<forall>x \<in> set xs. x \<le> foldl (\<lambda>m y. if m < y then y else m) a xs)"
proof (induction xs arbitrary: a)
  case Nil
  then show ?case by simp
next
  case (Cons y ys)
  from Cons.IH [of "if a < y then y else a"] show ?case by auto
qed

lemma combined_range_covers:
  assumes "py_min_real xs = Inr lower" and "py_max_real xs = Inr upper" and "x \<in> set xs"
  shows "lower \<le> x \<and> x \<le> upper"
proof (cases xs)
  case Nil
  with assms(3) show ?thesis by simp
next
  case (Cons a rest)
  with assms(1,2) have l: "lower = foldl (\<lambda>m y. if y < m then y else m) a rest"
    and u: "upper = foldl (\<lambda>m y. if m < y then y else m) a rest"
    by (simp_all add: py_min_real_def py_max_real_def)
  from assms(3) Cons have "x = a \<or> x \<in> set rest" by simp
  with foldl_min_le [of a rest] foldl_max_ge [of a rest] show ?thesis
    unfolding l u by blast
qed




subsection \<open>Modified Kullback-Leibler divergence\<close>






















end
